theory Spec2Isabelle
  imports Complex_Main
begin

section \<open>Exceptions, log records and the core's state\<close>

text \<open>
  The exceptions that reach the agent's handlers. \<open>NoSuchProcess\<close> and \<open>AccessDenied\<close>
  are the two classes of \<open>psutil\<close> that the scanner names; \<open>Exception\<close> stands for every
  other class derived from Python's \<open>Exception\<close> (a \<open>TypeError\<close>, a \<open>RuntimeError\<close>
  ...), \<open>OSError\<close> for the class that \<open>socket.error\<close> names.
  Each carries the text \<open>str(e)\<close>. \<open>KeyboardInterrupt\<close> derives from \<open>BaseException\<close>
  only, so a handler \<open>except Exception\<close> lets it through.
\<close>

datatype exn =
    NoSuchProcess string
  | AccessDenied string
  | OSError string
  | Exception string
  | KeyboardInterrupt

fun str :: "exn \<Rightarrow> string" where
  "str (NoSuchProcess m) = m"
| "str (AccessDenied m) = m"
| "str (OSError m) = m"
| "str (Exception m) = m"
| "str KeyboardInterrupt = []"

text \<open>\<open>isinstance(e, Exception)\<close>: what \<open>except Exception\<close> catches.\<close>

fun is_Exception :: "exn \<Rightarrow> bool" where
  "is_Exception KeyboardInterrupt = False"
| "is_Exception _ = True"


text \<open>\<open>isinstance(e, (psutil.NoSuchProcess, psutil.AccessDenied))\<close>.\<close>

fun is_NoSuchProcess_or_AccessDenied :: "exn \<Rightarrow> bool" where
  "is_NoSuchProcess_or_AccessDenied (NoSuchProcess _) = True"
| "is_NoSuchProcess_or_AccessDenied (AccessDenied _) = True"
| "is_NoSuchProcess_or_AccessDenied _ = False"

datatype level = INFO | WARNING | ERROR

type_synonym log_record = "level \<times> string"

text \<open>
  \<open>SecureAICore\<close>: the flag \<open>running\<close>, the handle \<open>tor_process\<close> (\<open>None\<close> until a
  launch succeeds; a handle is identified by a number) and the records written through
  \<open>self.logger\<close>, oldest first.
\<close>

record core =
  running :: bool
  tor_process :: "nat option"
  logger :: "log_record list"

definition SecureAICore_init :: core where
  "SecureAICore_init = \<lparr>running = True, tor_process = None, logger = []\<rparr>"

definition log :: "level \<Rightarrow> string \<Rightarrow> core \<Rightarrow> core" where
  "log lv msg s = s\<lparr>logger := logger s @ [(lv, msg)]\<rparr>"

section \<open>The threat scanner\<close>

text \<open>
  One entry of \<open>proc.info\<close>: the attributes the scanner reads. The percentage is a
  float in the source; it is only compared with 90, so it is a real number here.
\<close>

record proc_info =
  pid :: nat
  name :: string
  cpu_percent :: real

text \<open>
  What one turn of \<open>for proc in psutil.process_iter(...)\<close> does inside the inner
  \<open>try\<close>: the body reads the entry and evaluates normally, or it raises. The iterator
  itself ends normally or raises (outside the inner \<open>try\<close>).
\<close>

datatype proc_event = Inspect proc_info | InspectRaises exn

datatype iter_end = IterDone | IterRaises exn

type_synonym enumeration = "proc_event list \<times> iter_end"

text \<open>Decimal digits of a process id, as an f-string prints an \<open>int\<close>.\<close>

definition digit :: "nat \<Rightarrow> char" where
  "digit d = ''0123456789'' ! d"

fun str_nat :: "nat \<Rightarrow> string" where
  "str_nat n = (if n < 10 then [digit n] else str_nat (n div 10) @ [digit (n mod 10)])"

declare str_nat.simps [simp del]

text \<open>\<open>f"High CPU: {info['name']} (PID: {info['pid']})"\<close>\<close>

definition high_cpu :: "proc_info \<Rightarrow> string" where
  "high_cpu info = ''High CPU: '' @ name info @ '' (PID: '' @ str_nat (pid info) @ '')''"

definition no_threats :: string where
  "no_threats = ''No immediate threats detected''"

text \<open>
  The \<open>for\<close> loop of \<open>security_scan\<close> with its accumulator \<open>threats\<close>. It returns how the
  loop left the outer \<open>try\<close> body (normally, or with the exception that escaped the inner
  handler) and the list accumulated until then.
\<close>

fun scan_loop :: "proc_event list \<Rightarrow> iter_end \<Rightarrow> string list \<Rightarrow> (exn + unit) \<times> string list" where
  "scan_loop [] IterDone threats = (Inr (), threats)"
| "scan_loop [] (IterRaises e) threats = (Inl e, threats)"
| "scan_loop (Inspect info # evs) en threats =
     scan_loop evs en (if cpu_percent info > 90 then threats @ [high_cpu info] else threats)"
| "scan_loop (InspectRaises e # evs) en threats =
     (if is_NoSuchProcess_or_AccessDenied e then scan_loop evs en threats
      else (Inl e, threats))"

text \<open>\<open>return threats if threats else ["No immediate threats detected"]\<close>\<close>

definition scan_result :: "string list \<Rightarrow> string list" where
  "scan_result threats = (if threats \<noteq> [] then threats else [no_threats])"

text \<open>
  \<open>security_scan\<close>: the outer handler catches every \<open>Exception\<close>, logs it and falls
  through to the \<open>return\<close>; anything else propagates to the caller.
\<close>

definition security_scan :: "enumeration \<Rightarrow> core \<Rightarrow> (exn + string list) \<times> core" where
  "security_scan en s =
     (case scan_loop (fst en) (snd en) [] of
        (Inr _, threats) \<Rightarrow> (Inr (scan_result threats), s)
      | (Inl e, threats) \<Rightarrow>
          if is_Exception e
          then (Inr (scan_result threats), log ERROR (''Scan failed: '' @ str e) s)
          else (Inl e, s))"


section \<open>The relay supervisor\<close>

text \<open>
  What \<open>stem.process.launch_tor_with_config(..., timeout=300)\<close> does: it returns the
  handle of the relay process, or it raises (an \<open>OSError\<close> when the launch fails or the
  timeout passes). \<open>TOR_READY\<close> is the module's flag, set when \<open>stem\<close> imports.
\<close>

datatype launch = Launched nat | LaunchRaises exn

definition start_tor :: "bool \<Rightarrow> launch \<Rightarrow> core \<Rightarrow> (exn + bool) \<times> core" where
  "start_tor TOR_READY l s =
     (if \<not> TOR_READY
      then (Inr False, log WARNING ''TOR not available - running in unprotected mode'' s)
      else (case l of
          Launched h \<Rightarrow> (Inr True, log INFO ''TOR started successfully'' (s\<lparr>tor_process := Some h\<rparr>))
        | LaunchRaises e \<Rightarrow>
            if is_Exception e then (Inr False, log ERROR (''TOR failed: '' @ str e) s)
            else (Inl e, s)))"

text \<open>
  Line 78 reaches the function through the attribute \<open>process\<close> of the package
  \<open>stem\<close>. The module's imports are \<open>import stem\<close> and
  \<open>from stem.control import Controller\<close>; neither loads the submodule
  \<open>stem.process\<close> (stem 1.8), and nothing else in the file imports it. So when
  \<open>start_tor\<close> runs the package has no such attribute: the expression raises
  \<open>AttributeError\<close> inside the \<open>try\<close>, before a launch is attempted, whatever a
  call of the function would have done.
\<close>

definition stem_process_loaded :: bool where
  "stem_process_loaded = False"

definition apostrophe :: string where
  "apostrophe = [CHR 0x27]"

text \<open>\<open>module 'stem' has no attribute 'process'\<close>\<close>

definition no_attribute_process :: string where
  "no_attribute_process =
     ''module '' @ apostrophe @ ''stem'' @ apostrophe @ '' has no attribute ''
       @ apostrophe @ ''process'' @ apostrophe"

text \<open>
  What evaluating \<open>stem.process.launch_tor_with_config(...)\<close> does, given whether the
  submodule is loaded and what a call of the function would do.
\<close>

definition launch_expression :: "bool \<Rightarrow> launch \<Rightarrow> launch" where
  "launch_expression loaded l =
     (if loaded then l else LaunchRaises (Exception no_attribute_process))"

section \<open>The classification gateway\<close>

text \<open>
  The backend as \<open>ai_analyze\<close> meets it: building the pipeline raises, or the analyzer
  it returns raises on the text, or the analyzer returns labels with scores. The calls made
  on the backend are returned as a trace, so that "the backend is not called" is a
  statement about the function's result.
\<close>

type_synonym classification = "(string \<times> real) list"

datatype backend = PipelineRaises exn | AnalyzerRaises exn | AnalyzerReturns classification

datatype backend_call = Pipeline_call | Analyzer_call string

datatype analysis = Classified classification | Status_dict "(string \<times> string) list"

definition error_dict :: "string \<Rightarrow> analysis" where
  "error_dict msg = Status_dict [(''status'', ''error''), (''message'', msg)]"

text \<open>The handler \<open>except Exception as e\<close> of \<open>ai_analyze\<close>, after the calls \<open>cs\<close>.\<close>

definition analysis_failed :: "exn \<Rightarrow> core \<Rightarrow> backend_call list \<Rightarrow> (exn + analysis) \<times> core \<times> backend_call list" where
  "analysis_failed e s cs =
     (if is_Exception e
      then (Inr (error_dict (str e)), log ERROR (''AI analysis failed: '' @ str e) s, cs)
      else (Inl e, s, cs))"

definition ai_analyze :: "bool \<Rightarrow> backend \<Rightarrow> string \<Rightarrow> core \<Rightarrow> (exn + analysis) \<times> core \<times> backend_call list" where
  "ai_analyze AI_READY b text s =
     (if \<not> AI_READY then (Inr (error_dict ''AI engine not available''), s, [])
      else (case b of
          PipelineRaises e \<Rightarrow> analysis_failed e s [Pipeline_call]
        | AnalyzerRaises e \<Rightarrow> analysis_failed e s [Pipeline_call, Analyzer_call text]
        | AnalyzerReturns r \<Rightarrow> (Inr (Classified r), s, [Pipeline_call, Analyzer_call text])))"

section \<open>The scan loop\<close>

definition newline :: string where
  "newline = [CHR 0x0A]"

text \<open>\<open>sep.join(xs)\<close>\<close>

fun join :: "string \<Rightarrow> string list \<Rightarrow> string" where
  "join sep [] = []"
| "join sep [x] = x"
| "join sep (x # y # ys) = x @ sep @ join sep (y # ys)"

text \<open>
  What the world does during one turn of \<open>while self.running\<close>: the processes the scan
  meets, whether Ctrl+C arrives during \<open>time.sleep(60)\<close>, and whether the foreground
  (\<open>clean_exit\<close>) writes \<open>running = False\<close> before the loop tests the flag again.
\<close>

record cycle =
  procs :: enumeration
  sleep_interrupted :: bool
  stop_requested :: bool

text \<open>The body of the \<open>try\<close> inside the loop.\<close>

definition loop_body :: "cycle \<Rightarrow> core \<Rightarrow> (exn + unit) \<times> core" where
  "loop_body c s =
     (case security_scan (procs c) s of
        (Inl e, s1) \<Rightarrow> (Inl e, s1)
      | (Inr threats, s1) \<Rightarrow>
          (let s2 = (if length threats > 1
                     then log WARNING (''Security Alert:'' @ newline @ join newline threats) s1
                     else s1)
           in if sleep_interrupted c then (Inl KeyboardInterrupt, s2) else (Inr (), s2)))"

text \<open>The \<open>try\<close> with its handler \<open>except KeyboardInterrupt: self.running = False\<close>.\<close>

definition run_iteration :: "cycle \<Rightarrow> core \<Rightarrow> (exn + unit) \<times> core" where
  "run_iteration c s =
     (case loop_body c s of
        (Inl e, s1) \<Rightarrow> if e = KeyboardInterrupt then (Inr (), s1\<lparr>running := False\<rparr>) else (Inl e, s1)
      | (Inr u, s1) \<Rightarrow> (Inr u, s1))"

text \<open>\<open>SecureAIGUI.clean_exit\<close>, its write on the core: \<open>self.core.running = False\<close>.\<close>

definition clean_exit :: "core \<Rightarrow> core" where
  "clean_exit s = s\<lparr>running := False\<rparr>"

text \<open>
  The \<open>while\<close> loop over a finite schedule of cycles. \<open>None\<close>: the schedule is used up
  and the loop is still running.
\<close>

fun run_loop :: "cycle list \<Rightarrow> core \<Rightarrow> ((exn + unit) \<times> core) option" where
  "run_loop [] s = (if running s then None else Some (Inr (), s))"
| "run_loop (c # cs) s =
     (if running s
      then (case run_iteration c s of
          (Inl e, s1) \<Rightarrow> Some (Inl e, s1)
        | (Inr _, s1) \<Rightarrow> run_loop cs (if stop_requested c then clean_exit s1 else s1))
      else Some (Inr (), s))"

definition run :: "bool \<Rightarrow> launch \<Rightarrow> cycle list \<Rightarrow> core \<Rightarrow> ((exn + unit) \<times> core) option" where
  "run TOR_READY l cs s =
     (case start_tor TOR_READY l (log INFO ''=== Secure AI Agent Started ==='' s) of
        (Inl e, s1) \<Rightarrow> Some (Inl e, s1)
      | (Inr _, s1) \<Rightarrow>
          (case run_loop cs s1 of
             None \<Rightarrow> None
           | Some (Inl e, s2) \<Rightarrow> Some (Inl e, s2)
           | Some (Inr u, s2) \<Rightarrow> Some (Inr u, log INFO ''Agent stopped gracefully'' s2)))"

section \<open>The status surface\<close>

text \<open>
  The truth value of \<open>self.core.tor_process\<close> that \<open>show_status\<close> tests: a handle is
  truthy, \<open>None\<close> is not.
\<close>

definition anonymityActive :: "core \<Rightarrow> bool" where
  "anonymityActive s = (tor_process s \<noteq> None)"

definition show_status :: "bool \<Rightarrow> core \<Rightarrow> string \<times> string" where
  "show_status AI_READY s =
     (''Current Status'',
      join newline
        [''Agent: '' @ (if running s then ''Running'' else ''Stopped''),
         ''TOR: '' @ (if anonymityActive s then ''Active'' else ''Inactive''),
         ''AI: '' @ (if AI_READY then ''Ready'' else ''Unavailable'')])"







section \<open>The launcher\<close>










section \<open>Reading the scanner's loop\<close>

text \<open>
  Two functions that say in the specification's words what the loop of \<open>security_scan\<close>
  does with an enumeration: the entries above the threshold among those read before the
  loop is left, and the exception that leaves the loop, if one does.
\<close>

fun flagged :: "proc_event list \<Rightarrow> proc_info list" where
  "flagged [] = []"
| "flagged (Inspect info # evs) =
     (if cpu_percent info > 90 then info # flagged evs else flagged evs)"
| "flagged (InspectRaises e # evs) =
     (if is_NoSuchProcess_or_AccessDenied e then flagged evs else [])"

fun loop_exit :: "proc_event list \<Rightarrow> iter_end \<Rightarrow> exn option" where
  "loop_exit [] IterDone = None"
| "loop_exit [] (IterRaises e) = Some e"
| "loop_exit (Inspect info # evs) en = loop_exit evs en"
| "loop_exit (InspectRaises e # evs) en =
     (if is_NoSuchProcess_or_AccessDenied e then loop_exit evs en else Some e)"

text \<open>An entry whose inspection raises \<open>NoSuchProcess\<close> or \<open>AccessDenied\<close>.\<close>

fun skipped :: "proc_event \<Rightarrow> bool" where
  "skipped (Inspect info) = False"
| "skipped (InspectRaises e) = is_NoSuchProcess_or_AccessDenied e"

text \<open>
  The loop is left by an exception that \<open>except Exception\<close> does not catch (Ctrl+C
  arriving during the scan): \<open>security_scan\<close> then does not return.
\<close>

definition interrupted :: "enumeration \<Rightarrow> bool" where
  "interrupted en =
     (case loop_exit (fst en) (snd en) of None \<Rightarrow> False | Some e \<Rightarrow> \<not> is_Exception e)"


section \<open>Properties of the scanner\<close>

lemma scan_loop_eq:
  "scan_loop evs en acc =
     ((case loop_exit evs en of None \<Rightarrow> Inr () | Some e \<Rightarrow> Inl e),
      acc @ map high_cpu (flagged evs))"
  by (induction evs en acc rule: scan_loop.induct) simp_all

lemma high_cpu_not_sentinel: "high_cpu p \<noteq> no_threats"
  by (simp add: high_cpu_def no_threats_def)

lemma flagged_Inspect: "flagged (map Inspect ps) = filter (\<lambda>p. cpu_percent p > 90) ps"
  by (induction ps) simp_all

lemma loop_exit_Inspect:
  "loop_exit (map Inspect ps) en = (case en of IterDone \<Rightarrow> None | IterRaises e \<Rightarrow> Some e)"
  by (induction ps) (simp_all split: iter_end.splits)

lemma flagged_drop_skipped: "flagged (filter (\<lambda>ev. \<not> skipped ev) evs) = flagged evs"
  by (induction evs rule: flagged.induct) simp_all

lemma loop_exit_drop_skipped:
  "loop_exit (filter (\<lambda>ev. \<not> skipped ev) evs) en = loop_exit evs en"
  by (induction evs en rule: loop_exit.induct) simp_all

text \<open>
  C1. On a process list whose entries are all read, \<open>security_scan\<close> returns one finding
  for each entry with \<open>cpu_percent > 90\<close> and for no other, in the order of the list; it
  returns the sentinel list exactly when no entry is above 90 (so also on the empty
  list); it logs nothing.
\<close>

theorem scan_flags_exactly_over_90:
  "security_scan (map Inspect ps, IterDone) s =
     (Inr (if filter (\<lambda>p. cpu_percent p > 90) ps = [] then [no_threats]
           else map high_cpu (filter (\<lambda>p. cpu_percent p > 90) ps)), s)
   \<and> (fst (security_scan (map Inspect ps, IterDone) s) = Inr [no_threats]) =
       list_all (\<lambda>p. cpu_percent p \<le> 90) ps"
proof -
  let ?hot = "filter (\<lambda>p. cpu_percent p > 90) ps"
  have eq: "security_scan (map Inspect ps, IterDone) s =
     (Inr (if ?hot = [] then [no_threats] else map high_cpu ?hot), s)"
    by (simp add: security_scan_def scan_loop_eq flagged_Inspect loop_exit_Inspect scan_result_def)
  have none: "(?hot = []) = list_all (\<lambda>p. cpu_percent p \<le> 90) ps"
    by (induction ps) auto
  have "(fst (security_scan (map Inspect ps, IterDone) s) = Inr [no_threats]) =
         list_all (\<lambda>p. cpu_percent p \<le> 90) ps"
  proof (cases "?hot = []")
    case True
    then show ?thesis using none by (simp add: eq)
  next
    case False
    then obtain p qs where "?hot = p # qs" by (cases ?hot) auto
    then show ?thesis using none False by (simp add: eq high_cpu_not_sentinel)
  qed
  with eq show ?thesis by blast
qed

text \<open>
  C8. An entry whose inspection raises \<open>NoSuchProcess\<close> or \<open>AccessDenied\<close> is skipped in
  silence: the scan returns the same value and leaves the same log as on the enumeration
  without these entries, so such an entry yields no finding, no log record and no failure,
  and the entries after it are still read.
\<close>

theorem scan_skips_denied_and_vanished:
  "security_scan (evs, en) s = security_scan (filter (\<lambda>ev. \<not> skipped ev) evs, en) s"
  by (simp add: security_scan_def scan_loop_eq flagged_drop_skipped loop_exit_drop_skipped)

lemma security_scan_eq:
  "security_scan (evs, en) s =
     (case loop_exit evs en of
        None \<Rightarrow> (Inr (scan_result (map high_cpu (flagged evs))), s)
      | Some e \<Rightarrow>
          if is_Exception e
          then (Inr (scan_result (map high_cpu (flagged evs))),
                log ERROR (''Scan failed: '' @ str e) s)
          else (Inl e, s))"
  by (simp add: security_scan_def scan_loop_eq split: option.splits)

lemma scan_result_nonempty: "scan_result ts \<noteq> []"
  by (simp add: scan_result_def)


lemma str_nat_4321: "str_nat 4321 = ''4321''"
  by (simp add: str_nat.simps [of 4321] str_nat.simps [of 432] str_nat.simps [of 43]
      str_nat.simps [of 4] digit_def)

text \<open>
  C10. \<open>security_scan\<close> never returns the empty list. Unless Ctrl+C ends the scan (then
  nothing is returned), it returns a list of length at least one, on every enumeration:
  the empty one, and one whose iterator or loop body raises; when no entry was flagged
  the list is the one sentinel string.
\<close>

theorem scan_never_returns_empty:
  "fst (security_scan en s) \<noteq> Inr []
   \<and> (\<not> interrupted en \<longrightarrow>
        (\<exists>ts. fst (security_scan en s) = Inr ts \<and> 1 \<le> length ts
              \<and> (flagged (fst en) = [] \<longrightarrow> ts = [no_threats])))"
proof -
  obtain evs e where en: "en = (evs, e)" by (cases en)
  have a: "fst (security_scan en s) \<noteq> Inr []"
    by (simp add: en security_scan_eq scan_result_nonempty split: option.splits)
  have b: "\<exists>ts. fst (security_scan en s) = Inr ts \<and> 1 \<le> length ts
              \<and> (flagged (fst en) = [] \<longrightarrow> ts = [no_threats])" if "\<not> interrupted en"
  proof -
    from that have "fst (security_scan en s) = Inr (scan_result (map high_cpu (flagged evs)))"
      by (auto simp add: en interrupted_def security_scan_eq split: option.splits)
    moreover have "1 \<le> length (scan_result (map high_cpu (flagged evs)))"
      using scan_result_nonempty [of "map high_cpu (flagged evs)"]
      by (cases "scan_result (map high_cpu (flagged evs))") simp_all
    moreover have "flagged evs = [] \<longrightarrow> scan_result (map high_cpu (flagged evs)) = [no_threats]"
      by (simp add: scan_result_def)
    ultimately show ?thesis by (simp add: en)
  qed
  from a b show ?thesis by blast
qed

theorem scan_never_returns_empty_witness:
  "\<not> interrupted ([], IterRaises (OSError ''no /proc''))
   \<and> fst (security_scan ([], IterRaises (OSError ''no /proc'')) SecureAICore_init)
       = Inr [''No immediate threats detected'']
   \<and> \<not> interrupted ([], IterDone)
   \<and> fst (security_scan ([], IterDone) SecureAICore_init) = Inr [''No immediate threats detected'']"
  using scan_never_returns_empty [of "([], IterRaises (OSError ''no /proc''))" SecureAICore_init]
    scan_never_returns_empty [of "([], IterDone)" SecureAICore_init]
  by (simp add: interrupted_def no_threats_def)

text \<open>
  C2, as the specification states it, fails: when the enumeration raises at once, the scan
  returns the sentinel list, which is not empty.
\<close>

theorem failed_scan_returns_sentinel_not_empty:
  "security_scan ([], IterRaises (OSError ''host API unavailable'')) SecureAICore_init =
     (Inr [''No immediate threats detected''],
      \<lparr>running = True, tor_process = None,
       logger = [(ERROR, ''Scan failed: host API unavailable'')]\<rparr>)
   \<and> fst (security_scan ([], IterRaises (OSError ''host API unavailable'')) SecureAICore_init)
       \<noteq> Inr []"
  by (simp add: security_scan_def scan_result_def no_threats_def log_def SecureAICore_init_def)

text \<open>
  C2, amended. When an \<open>Exception\<close> leaves the loop of \<open>security_scan\<close> (the iterator
  raises, or the body raises something other than the two skipped classes), the scan
  returns normally: the findings collected until then, or the sentinel list when there are
  none; and the log gains one \<open>ERROR\<close> record with the cause.
\<close>

theorem failed_scan_returns_collected_or_sentinel:
  assumes "loop_exit evs en = Some e" and "is_Exception e"
  shows "security_scan (evs, en) s =
           (Inr (if flagged evs = [] then [no_threats] else map high_cpu (flagged evs)),
            log ERROR (''Scan failed: '' @ str e) s)"
  using assms by (simp add: security_scan_eq scan_result_def)

theorem failed_scan_returns_collected_or_sentinel_witness:
  "loop_exit [Inspect \<lparr>pid = 4321, name = ''miner'', cpu_percent = 95\<rparr>]
      (IterRaises (OSError ''gone'')) = Some (OSError ''gone'')
   \<and> is_Exception (OSError ''gone'')
   \<and> security_scan
        ([Inspect \<lparr>pid = 4321, name = ''miner'', cpu_percent = 95\<rparr>], IterRaises (OSError ''gone''))
        SecureAICore_init
      = (Inr [''High CPU: miner (PID: 4321)''], log ERROR ''Scan failed: gone'' SecureAICore_init)"
  using failed_scan_returns_collected_or_sentinel
    [of "[Inspect \<lparr>pid = 4321, name = ''miner'', cpu_percent = 95\<rparr>]"
        "IterRaises (OSError ''gone'')" "OSError ''gone''" SecureAICore_init]
  by (simp add: high_cpu_def str_nat_4321)

section \<open>Properties of the scan loop\<close>

text \<open>
  C3, at the input where the code departs from it: one process at 95 percent gives one
  finding, and the loop's test \<open>len(threats) > 1\<close> is false, so the iteration writes no
  record at all.
\<close>

theorem single_finding_is_not_logged:
  "fst (security_scan ([Inspect \<lparr>pid = 4321, name = ''miner'', cpu_percent = 95\<rparr>], IterDone)
          SecureAICore_init)
     = Inr [''High CPU: miner (PID: 4321)'']
   \<and> run_iteration
        \<lparr>procs = ([Inspect \<lparr>pid = 4321, name = ''miner'', cpu_percent = 95\<rparr>], IterDone),
         sleep_interrupted = False, stop_requested = False\<rparr> SecureAICore_init
     = (Inr (), SecureAICore_init)
   \<and> logger SecureAICore_init = []"
  by (simp add: run_iteration_def loop_body_def security_scan_def scan_result_def high_cpu_def
      str_nat_4321 SecureAICore_init_def)

section \<open>Properties of the classification gateway\<close>

text \<open>
  C4. With the flag \<open>AI_READY\<close> false, \<open>ai_analyze\<close> returns the error dictionary at once,
  whatever the backend and the text are, and makes no call on the backend. With the flag
  true, an \<open>Exception\<close> raised while the pipeline is built or by the analyzer is caught:
  the call returns the error dictionary with \<open>str(e)\<close> as its message and logs the cause.
\<close>

theorem ai_analyze_unavailable_or_caught:
  "ai_analyze False b text s =
     (Inr (Status_dict [(''status'', ''error''), (''message'', ''AI engine not available'')]), s, [])
   \<and> (is_Exception e \<longrightarrow>
        ai_analyze True (PipelineRaises e) text s =
          (Inr (Status_dict [(''status'', ''error''), (''message'', str e)]),
           log ERROR (''AI analysis failed: '' @ str e) s, [Pipeline_call])
        \<and> ai_analyze True (AnalyzerRaises e) text s =
          (Inr (Status_dict [(''status'', ''error''), (''message'', str e)]),
           log ERROR (''AI analysis failed: '' @ str e) s, [Pipeline_call, Analyzer_call text]))"
  by (simp add: ai_analyze_def analysis_failed_def error_dict_def)

theorem ai_analyze_unavailable_or_caught_witness:
  "is_Exception (Exception ''model not found'')
   \<and> ai_analyze True (PipelineRaises (Exception ''model not found'')) ''hello'' SecureAICore_init =
       (Inr (Status_dict [(''status'', ''error''), (''message'', ''model not found'')]),
        \<lparr>running = True, tor_process = None,
         logger = [(ERROR, ''AI analysis failed: model not found'')]\<rparr>, [Pipeline_call])
   \<and> ai_analyze True (AnalyzerRaises (Exception ''model not found'')) ''hello'' SecureAICore_init =
       (Inr (Status_dict [(''status'', ''error''), (''message'', ''model not found'')]),
        \<lparr>running = True, tor_process = None,
         logger = [(ERROR, ''AI analysis failed: model not found'')]\<rparr>,
        [Pipeline_call, Analyzer_call ''hello''])"
  using ai_analyze_unavailable_or_caught
    [of "AnalyzerReturns []" "''hello''" SecureAICore_init "Exception ''model not found''"]
  by (simp add: log_def SecureAICore_init_def)

section \<open>Properties of the relay supervisor\<close>

text \<open>
  C5. When the launch raises an \<open>Exception\<close> (the timeout of 300 seconds passes, or the
  launch fails), \<open>start_tor\<close> returns \<open>False\<close> and raises nothing; it logs the cause and
  changes neither \<open>tor_process\<close> nor \<open>running\<close>, so a core that held no handle (as after
  \<open>__init__\<close>) still holds none; and \<open>run\<close> goes on into its scan loop from that state.
\<close>

theorem start_tor_failure_leaves_inactive:
  assumes "is_Exception e"
  shows "start_tor True (LaunchRaises e) s = (Inr False, log ERROR (''TOR failed: '' @ str e) s)
   \<and> tor_process (snd (start_tor True (LaunchRaises e) s)) = tor_process s
   \<and> running (snd (start_tor True (LaunchRaises e) s)) = running s
   \<and> \<not> anonymityActive (snd (start_tor True (LaunchRaises e) SecureAICore_init))
   \<and> run True (LaunchRaises e) cs s =
       (case run_loop cs (log ERROR (''TOR failed: '' @ str e)
                           (log INFO ''=== Secure AI Agent Started ==='' s)) of
          None \<Rightarrow> None
        | Some (Inl e', s2) \<Rightarrow> Some (Inl e', s2)
        | Some (Inr u, s2) \<Rightarrow> Some (Inr u, log INFO ''Agent stopped gracefully'' s2))"
  using assms
  by (simp add: start_tor_def run_def log_def anonymityActive_def SecureAICore_init_def)

theorem start_tor_failure_leaves_inactive_witness:
  "is_Exception (OSError ''reached a 300 second timeout without success'')
   \<and> start_tor True (LaunchRaises (OSError ''reached a 300 second timeout without success''))
        SecureAICore_init =
       (Inr False,
        \<lparr>running = True, tor_process = None,
         logger = [(ERROR, ''TOR failed: reached a 300 second timeout without success'')]\<rparr>)"
  using start_tor_failure_leaves_inactive
    [of "OSError ''reached a 300 second timeout without success''" SecureAICore_init "[]"]
  by (simp add: log_def SecureAICore_init_def)

section \<open>Properties of the status surface\<close>






lemma launch_expression_in_main:
  "launch_expression stem_process_loaded l = LaunchRaises (Exception no_attribute_process)"
  by (simp add: launch_expression_def stem_process_loaded_def)

lemma start_tor_in_main:
  "start_tor True (launch_expression stem_process_loaded l) s =
     (Inr False, log ERROR (''TOR failed: '' @ no_attribute_process) s)"
  by (simp add: launch_expression_in_main start_tor_def)




section \<open>Properties of the launcher\<close>












end
